theory Spec2Isabelle
  imports Complex_Main "HOL-Library.Signed_Division"
begin

section \<open>Data model of the replay page (src/src/app/page.tsx)\<close>

text \<open>
  The page keeps its engine in \<open>engineRef.current\<close> and its trading state in React state
  (\<open>positions\<close>, \<open>accountBalance\<close>). Both are gathered in one record \<open>world\<close>; every handler
  of the page is a function from world to world. JavaScript numbers (prices, sizes, pnl,
  frame timestamps) are idealised as real numbers: rounding, NaN and the infinities of
  IEEE doubles are outside this model. Nanosecond timestamps are BigInt in the source and
  \<open>int\<close> here; a tick's \<open>ts\<close> string is modelled by the integer \<open>BigInt(tick.ts)\<close> reads.
  The source uses 0 for a missing number: \<open>currentPrice\<close> starts at 0 and means no price
  until a tick is folded, and the tests \<open>!currentPrice\<close>, \<open>!price\<close>, \<open>pos.sl && ...\<close> and
  \<open>!lastFrameTime\<close> treat 0 like an absent value. The model keeps these tests as
  comparisons with 0.
\<close>

datatype instrument = ES | NQ

datatype side = LONG | SHORT

datatype contractType = MINI | MICRO

datatype stopKind = SL | TP

text \<open>\<open>type Tick = { ts: string; price: number; volume: number; m: number }\<close>\<close>

record tick =
  tick_ts :: int
  tick_price :: real
  tick_volume :: real
  tick_m :: int

text \<open>The candle object \<open>{ time, open, high, low, close }\<close> held in \<open>state.candle\<close>.\<close>

record candle =
  c_time :: int
  c_open :: real
  c_high :: real
  c_low :: real
  c_close :: real

text \<open>
  \<open>type Position\<close>. The optional fields \<open>sl?\<close> and \<open>tp?\<close> are options; positions are keyed
  by the upper-cased instrument key, which is the instrument itself here.
\<close>

record position =
  symbol :: instrument
  pos_side :: side
  avgPrice :: real
  pos_size :: real
  sl :: "real option"
  tp :: "real option"
  pnl :: real

text \<open>One entry \<open>engineRef.current.es\<close> / \<open>engineRef.current.nq\<close>.\<close>

record inst_state =
  buffer :: "tick list"
  cursor :: int
  done_flag :: bool
  lastLoadedIndex :: int
  currentPrice :: real
  candle :: "candle option"

text \<open>
  A request sent by \<open>fetchTicks(instrument, day, cursor, startMin)\<close>, and the suspended
  rest of an asynchronous \<open>checkAndFetchMore\<close> call: it waits for the ES page (remembering
  the \<open>needsNq\<close> it computed on entry) or for the NQ page.
\<close>

datatype request = Fetch instrument int int

datatype cont = AwaitEs bool | AwaitNq

text \<open>
  \<open>eng\<close> is \<open>engineRef.current[key]\<close>; \<open>charts k\<close> says whether \<open>chartsRef.current[k]\<close> is
  non-null; \<open>series k\<close> lists the candles handed to \<open>chart.series.update\<close> for \<open>k\<close>, oldest
  first; \<open>fetchLog\<close> lists the refill requests issued, oldest first; \<open>inflight\<close> is the
  suspended refill call, if any.
\<close>

record world =
  eng :: "instrument \<Rightarrow> inst_state"
  globalTimeBig :: int
  lastFrameTime :: real
  loadingMore :: bool
  startMinute :: int
  charts :: "instrument \<Rightarrow> bool"
  series :: "instrument \<Rightarrow> candle list"
  positions :: "instrument \<Rightarrow> position option"
  accountBalance :: real
  inflight :: "cont option"
  fetchLog :: "request list"

definition MARKET_OPEN_MIN :: int where
  "MARKET_OPEN_MIN = 570"

text \<open>The \<open>INSTRUMENTS\<close> table: \<open>multiplierMini\<close> and \<open>multiplierMicro\<close> of each instrument.\<close>

fun multiplierMini :: "instrument \<Rightarrow> real" where
  "multiplierMini ES = 50"
| "multiplierMini NQ = 20"

fun multiplierMicro :: "instrument \<Rightarrow> real" where
  "multiplierMicro ES = 5"
| "multiplierMicro NQ = 2"

text \<open>\<open>contractType === "MINI" ? inst.multiplierMini : inst.multiplierMicro\<close>\<close>

definition multiplier :: "contractType \<Rightarrow> instrument \<Rightarrow> real" where
  "multiplier ct k = (if ct = MINI then multiplierMini k else multiplierMicro k)"

section \<open>Orders: \<open>handleOrder\<close>\<close>

text \<open>
  \<open>(existing.side === "LONG" ? (currentPrice - existing.avgPrice)
                              : (existing.avgPrice - currentPrice))\<close>,
  written three times in \<open>handleOrder\<close> and once in \<open>updatePnL\<close>.
\<close>

definition directionalDiff :: "side \<Rightarrow> real \<Rightarrow> real \<Rightarrow> real" where
  "directionalDiff sd avg p = (if sd = LONG then p - avg else avg - p)"

text \<open>
  \<open>handleOrder(instrument, side)\<close> with the \<open>orderSize\<close> and \<open>contractType\<close> its closure
  reads. \<open>!currentPrice\<close> holds exactly at price 0 in this model.
\<close>

definition handleOrder :: "instrument \<Rightarrow> side \<Rightarrow> real \<Rightarrow> contractType \<Rightarrow> world \<Rightarrow> world" where
  "handleOrder k sd orderSize ct w =
    (let cp = currentPrice (eng w k) in
     if cp = 0 then w
     else
       (case positions w k of
          None \<Rightarrow>
            w\<lparr>positions := (positions w)(k \<mapsto>
                 \<lparr>symbol = k, pos_side = sd, avgPrice = cp, pos_size = orderSize,
                  sl = None, tp = None, pnl = 0\<rparr>)\<rparr>
        | Some existing \<Rightarrow>
            if pos_side existing = sd then
              (let totalCost = avgPrice existing * pos_size existing + cp * orderSize;
                   totalSize = pos_size existing + orderSize
               in w\<lparr>positions := (positions w)(k \<mapsto>
                      existing\<lparr>avgPrice := totalCost / totalSize, pos_size := totalSize\<rparr>)\<rparr>)
            else if pos_size existing > orderSize then
              (let closedPnL = directionalDiff (pos_side existing) (avgPrice existing) cp
                                 * orderSize * multiplier ct k
               in w\<lparr>positions := (positions w)(k \<mapsto>
                        existing\<lparr>pos_size := pos_size existing - orderSize\<rparr>),
                    accountBalance := accountBalance w + closedPnL\<rparr>)
            else if pos_size existing = orderSize then
              (let closedPnL = directionalDiff (pos_side existing) (avgPrice existing) cp
                                 * orderSize * multiplier ct k
               in w\<lparr>positions := (positions w)(k := None),
                    accountBalance := accountBalance w + closedPnL\<rparr>)
            else
              (let closedPnL = directionalDiff (pos_side existing) (avgPrice existing) cp
                                 * pos_size existing * multiplier ct k
               in w\<lparr>positions := (positions w)(k \<mapsto>
                        \<lparr>symbol = k, pos_side = sd, avgPrice = cp,
                         pos_size = orderSize - pos_size existing,
                         sl = None, tp = None, pnl = 0\<rparr>),
                    accountBalance := accountBalance w + closedPnL\<rparr>)))"

text \<open>
  The order-fill algorithm in the words of the specification (section 4.5), on the
  position of one instrument and the account balance. It is compared with \<open>handleOrder\<close>
  below.
\<close>

definition applyFill ::
  "instrument \<Rightarrow> side \<Rightarrow> real \<Rightarrow> real \<Rightarrow> real \<Rightarrow> position option \<times> real \<Rightarrow> position option \<times> real" where
  "applyFill k sd price fillSize mult pb =
    (case fst pb of
       None \<Rightarrow>
         (Some \<lparr>symbol = k, pos_side = sd, avgPrice = price, pos_size = fillSize,
                sl = None, tp = None, pnl = 0\<rparr>, snd pb)
     | Some existing \<Rightarrow>
         if pos_side existing = sd then
           (Some (existing\<lparr>avgPrice := (avgPrice existing * pos_size existing + price * fillSize)
                                          / (pos_size existing + fillSize),
                           pos_size := pos_size existing + fillSize\<rparr>), snd pb)
         else if fillSize < pos_size existing then
           (Some (existing\<lparr>pos_size := pos_size existing - fillSize\<rparr>),
            snd pb + directionalDiff (pos_side existing) (avgPrice existing) price * fillSize * mult)
         else if fillSize = pos_size existing then
           (None,
            snd pb + directionalDiff (pos_side existing) (avgPrice existing) price
                       * pos_size existing * mult)
         else
           (Some \<lparr>symbol = k, pos_side = sd, avgPrice = price,
                  pos_size = fillSize - pos_size existing, sl = None, tp = None, pnl = 0\<rparr>,
            snd pb + directionalDiff (pos_side existing) (avgPrice existing) price
                       * pos_size existing * mult))"

section \<open>Candles: the fold of one tick\<close>

text \<open>
  \<open>Number(tickTs / 1000000000n)\<close> is BigInt division, which truncates towards zero
  (\<open>sdiv\<close>); \<open>Math.floor(timestamp / 60) * 60\<close> rounds down.
\<close>

definition minuteTime :: "int \<Rightarrow> int" where
  "minuteTime tsNs = ((tsNs sdiv 1000000000) div 60) * 60"

definition newCandle :: "int \<Rightarrow> real \<Rightarrow> candle" where
  "newCandle mt price =
     \<lparr>c_time = mt, c_open = price, c_high = price, c_low = price, c_close = price\<rparr>"

text \<open>
  The three-way branch on \<open>state.candle\<close> that \<open>processInstrumentTick\<close> and \<open>processSync\<close>
  both contain: no candle, a candle of another minute, a candle of the same minute.
\<close>

definition foldTick :: "tick \<Rightarrow> candle option \<Rightarrow> candle" where
  "foldTick t c =
    (let price = tick_price t; mt = minuteTime (tick_ts t) in
     case c of
       None \<Rightarrow> newCandle mt price
     | Some cd \<Rightarrow>
         if c_time cd \<noteq> mt then newCandle mt price
         else cd\<lparr>c_high := max (c_high cd) price, c_low := min (c_low cd) price,
                 c_close := price\<rparr>)"

text \<open>
  The \<open>while\<close> loop of \<open>processInstrumentTick\<close> over the ticks from index
  \<open>lastLoadedIndex + 1\<close> on. It returns the number of ticks consumed, the new
  \<open>currentPrice\<close>, the new candle and the candles passed to \<open>chart.series.update\<close>.
\<close>

fun foldTicks ::
  "int \<Rightarrow> tick list \<Rightarrow> real \<Rightarrow> candle option \<Rightarrow> nat \<times> real \<times> candle option \<times> candle list" where
  "foldTicks globalTime [] p c = (0, p, c, [])"
| "foldTicks globalTime (t # rest) p c =
    (if tick_ts t > globalTime then (0, p, c, [])
     else
       (case foldTicks globalTime rest (tick_price t) (Some (foldTick t c)) of
          (n, p', c', ups) \<Rightarrow> (Suc n, p', c', foldTick t c # ups)))"

text \<open>
  \<open>processInstrumentTick(key, globalTime)\<close>. \<open>lastLoadedIndex\<close> is never below \<open>- 1\<close> in the
  source (it is set to \<open>- 1\<close> or to \<open>idx - 1\<close>), so the pending ticks are
  \<open>drop (lastLoadedIndex + 1) buffer\<close>.
\<close>

definition processInstrumentTick :: "instrument \<Rightarrow> int \<Rightarrow> world \<Rightarrow> world" where
  "processInstrumentTick key globalTime w =
    (let state = eng w key in
     if buffer state = [] \<or> \<not> charts w key then w
     else
       (case foldTicks globalTime (drop (nat (lastLoadedIndex state + 1)) (buffer state))
               (currentPrice state) (candle state) of
          (n, p, c, ups) \<Rightarrow>
            w\<lparr>eng := (eng w)(key := state\<lparr>lastLoadedIndex := lastLoadedIndex state + int n,
                                            currentPrice := p, candle := c\<rparr>),
              series := (series w)(key := series w key @ ups)\<rparr>))"

section \<open>Mark to market: \<open>updatePnL\<close>\<close>

text \<open>
  The body of \<open>Object.keys(next).forEach\<close> for one key. \<open>pos.pnl\<close> is assigned on the
  position object itself, which the map returned by the updater still holds, so the
  recomputed pnl is stored whether or not a stop fires. \<open>pos.sl && ...\<close> is false for an
  absent stop and for a stop equal to 0.
\<close>

definition updatePnLKey :: "contractType \<Rightarrow> instrument \<Rightarrow> world \<Rightarrow> world" where
  "updatePnLKey ct key w =
    (case positions w key of
       None \<Rightarrow> w
     | Some pos \<Rightarrow>
         (let cp = currentPrice (eng w key) in
          if cp = 0 then w
          else
            (let multi = multiplier ct key;
                 diff = (if pos_side pos = LONG then cp - avgPrice pos else avgPrice pos - cp);
                 pos' = pos\<lparr>pnl := diff * multi * pos_size pos\<rparr>
             in if (case sl pos' of None \<Rightarrow> False
                    | Some s \<Rightarrow> s \<noteq> 0 \<and> ((pos_side pos' = LONG \<and> cp \<le> s)
                                          \<or> (pos_side pos' = SHORT \<and> cp \<ge> s)))
                then w\<lparr>positions := (positions w)(key := None),
                       accountBalance := accountBalance w + pnl pos'\<rparr>
                else if (case tp pos' of None \<Rightarrow> False
                    | Some t \<Rightarrow> t \<noteq> 0 \<and> ((pos_side pos' = LONG \<and> cp \<ge> t)
                                          \<or> (pos_side pos' = SHORT \<and> cp \<le> t)))
                then w\<lparr>positions := (positions w)(key := None),
                       accountBalance := accountBalance w + pnl pos'\<rparr>
                else w\<lparr>positions := (positions w)(key \<mapsto> pos')\<rparr>)))"

text \<open>
  \<open>updatePnL\<close>: the keys are visited one after the other; the two keys touch different
  positions, and the balance additions commute over the reals.
\<close>

definition updatePnL :: "contractType \<Rightarrow> world \<Rightarrow> world" where
  "updatePnL ct w = updatePnLKey ct NQ (updatePnLKey ct ES w)"

section \<open>Refill: \<open>checkAndFetchMore\<close>\<close>

record page =
  pg_ticks :: "tick list"
  nextCursor :: int
  pg_done :: bool

definition THRESHOLD :: int where
  "THRESHOLD = 10000"

text \<open>\<open>!state.done && (state.buffer.length - state.lastLoadedIndex) < THRESHOLD\<close>\<close>

definition needsRefill :: "inst_state \<Rightarrow> bool" where
  "needsRefill s = (\<not> done_flag s \<and> int (length (buffer s)) - lastLoadedIndex s < THRESHOLD)"

text \<open>
  \<open>checkAndFetchMore\<close> up to its first \<open>await\<close>: the guard on the one \<open>loadingMore\<close> flag,
  the two needs, and the first \<open>fetchTicks\<close> call.
\<close>

definition checkAndFetchMore :: "world \<Rightarrow> world" where
  "checkAndFetchMore w =
    (if loadingMore w then w
     else
       (let needsEs = needsRefill (eng w ES); needsNq = needsRefill (eng w NQ) in
        if \<not> needsEs \<and> \<not> needsNq then w
        else if needsEs then
          w\<lparr>loadingMore := True,
            fetchLog := fetchLog w @ [Fetch ES (cursor (eng w ES)) (startMinute w)],
            inflight := Some (AwaitEs needsNq)\<rparr>
        else
          w\<lparr>loadingMore := True,
            fetchLog := fetchLog w @ [Fetch NQ (cursor (eng w NQ)) (startMinute w)],
            inflight := Some AwaitNq\<rparr>))"

text \<open>
  \<open>engineRef.current[key].buffer = [...buffer, ...data.ticks]\<close>, with the cursor and the
  done flag of the page.
\<close>

definition appendPage :: "instrument \<Rightarrow> page \<Rightarrow> world \<Rightarrow> world" where
  "appendPage key data w =
     w\<lparr>eng := (eng w)(key := (eng w key)\<lparr>buffer := buffer (eng w key) @ pg_ticks data,
                                          cursor := nextCursor data,
                                          done_flag := pg_done data\<rparr>)\<rparr>"

text \<open>
  The rest of \<open>checkAndFetchMore\<close> when the awaited \<open>fetchTicks\<close> settles: \<open>Some data\<close> is
  the page, \<open>None\<close> a rejected promise (the \<open>catch\<close> logs it and \<open>finally\<close> clears the flag).
\<close>

definition fetchSettled :: "page option \<Rightarrow> world \<Rightarrow> world" where
  "fetchSettled r w =
    (case inflight w of
       None \<Rightarrow> w
     | Some (AwaitEs needsNq) \<Rightarrow>
         (case r of
            None \<Rightarrow> w\<lparr>loadingMore := False, inflight := None\<rparr>
          | Some data \<Rightarrow>
              (let w1 = appendPage ES data w in
               if needsNq then
                 w1\<lparr>fetchLog := fetchLog w1 @ [Fetch NQ (cursor (eng w1 NQ)) (startMinute w1)],
                    inflight := Some AwaitNq\<rparr>
               else w1\<lparr>loadingMore := False, inflight := None\<rparr>))
     | Some AwaitNq \<Rightarrow>
         (case r of
            None \<Rightarrow> w\<lparr>loadingMore := False, inflight := None\<rparr>
          | Some data \<Rightarrow> (appendPage NQ data w)\<lparr>loadingMore := False, inflight := None\<rparr>))"

section \<open>The frame: \<open>loop\<close>\<close>

text \<open>
  \<open>loop(timestamp)\<close> with the \<open>isPlaying\<close>, \<open>playbackSpeed\<close> and \<open>contractType\<close> its closure
  reads. \<open>!lastFrameTime\<close> holds exactly at 0 in this model.
\<close>

definition loop :: "bool \<Rightarrow> real \<Rightarrow> contractType \<Rightarrow> real \<Rightarrow> world \<Rightarrow> world" where
  "loop isPlaying playbackSpeed ct timestamp w =
    (if \<not> isPlaying then w
     else
       (let lft = (if lastFrameTime w = 0 then timestamp else lastFrameTime w);
            deltaMs = timestamp - lft;
            advanceNs = \<lfloor>deltaMs * 1000000 * playbackSpeed\<rfloor>;
            currentGlobal = globalTimeBig w + advanceNs;
            w1 = w\<lparr>lastFrameTime := timestamp, globalTimeBig := currentGlobal\<rparr>
        in checkAndFetchMore
             (updatePnL ct
                (processInstrumentTick NQ currentGlobal
                   (processInstrumentTick ES currentGlobal w1)))))"

text \<open>
  Frames given by their wall-clock deltas: each frame's timestamp is the previous frame's
  timestamp plus the delta.
\<close>

fun frames :: "real \<Rightarrow> contractType \<Rightarrow> real list \<Rightarrow> world \<Rightarrow> world" where
  "frames sp ct [] w = w"
| "frames sp ct (d # ds) w = frames sp ct ds (loop True sp ct (lastFrameTime w + d) w)"

section \<open>Loading and seeking: \<open>loadData\<close>\<close>

text \<open>
  The \<open>while\<close> loop of \<open>processSync\<close>: it stops at the first tick with \<open>tick.m >= targetMin\<close>
  and returns that tick; before it, every tick is folded, and a candle that is
  superseded is passed to \<open>chart?.series.update\<close>.
\<close>

fun syncTicks ::
  "int \<Rightarrow> tick list \<Rightarrow> real \<Rightarrow> candle option
     \<Rightarrow> nat \<times> tick option \<times> real \<times> candle option \<times> candle list" where
  "syncTicks targetMin [] p c = (0, None, p, c, [])"
| "syncTicks targetMin (t # rest) p c =
    (if tick_m t \<ge> targetMin then (0, Some t, p, c, [])
     else
       (case syncTicks targetMin rest (tick_price t) (Some (foldTick t c)) of
          (n, hit, p', c', ups) \<Rightarrow>
            (Suc n, hit, p', c',
             (case c of
                None \<Rightarrow> []
              | Some cd \<Rightarrow> if c_time cd \<noteq> minuteTime (tick_ts t) then [cd] else []) @ ups)))"

text \<open>\<open>processSync(key)\<close>, with the variable \<open>caughtUp\<close> it shares with its caller.\<close>

definition processSync :: "int \<Rightarrow> instrument \<Rightarrow> bool \<times> world \<Rightarrow> bool \<times> world" where
  "processSync targetMin key cw =
    (let caughtUp = fst cw; w = snd cw; state = eng w key in
     if buffer state = [] then cw
     else
       (case syncTicks targetMin (drop (nat (lastLoadedIndex state + 1)) (buffer state))
               (currentPrice state) (candle state) of
          (n, hit, p, c, ups) \<Rightarrow>
            (caughtUp \<or> hit \<noteq> None,
             w\<lparr>eng := (eng w)(key := state\<lparr>lastLoadedIndex := lastLoadedIndex state + int n,
                                             currentPrice := p, candle := c\<rparr>),
               globalTimeBig :=
                 (case hit of
                    None \<Rightarrow> globalTimeBig w
                  | Some t \<Rightarrow> if caughtUp then globalTimeBig w else tick_ts t),
               series := (if charts w key then (series w)(key := series w key @ ups)
                          else series w)\<rparr>)))"

text \<open>
  \<open>esData.ticks[0]?.ts ? BigInt(esData.ticks[0].ts) : null\<close>, and the choice of \<open>startNs\<close>:
  a BigInt is truthy when it is not \<open>0n\<close>.
\<close>

definition firstTs :: "page \<Rightarrow> int option" where
  "firstTs data = (case pg_ticks data of [] \<Rightarrow> None | t # _ \<Rightarrow> Some (tick_ts t))"

definition truthyBig :: "int option \<Rightarrow> bool" where
  "truthyBig t = (case t of None \<Rightarrow> False | Some v \<Rightarrow> v \<noteq> 0)"

definition startNsOf :: "int option \<Rightarrow> int option \<Rightarrow> int" where
  "startNsOf t1 t2 =
    (if truthyBig t1 \<and> truthyBig t2 then (if the t1 < the t2 then the t1 else the t2)
     else if truthyBig t1 then the t1
     else if truthyBig t2 then the t2
     else 0)"

text \<open>The final \<open>if (state.candle) chart?.series.update(state.candle)\<close> of a seek.\<close>

definition showCandle :: "instrument \<Rightarrow> world \<Rightarrow> world" where
  "showCandle key w =
    (case candle (eng w key) of
       None \<Rightarrow> w
     | Some cd \<Rightarrow> if charts w key then w\<lparr>series := (series w)(key := series w key @ [cd])\<rparr>
                  else w)"

datatype load_outcome = Ignored | LoadError | NoTradingData | Playing

text \<open>
  \<open>loadData(dayToLoad, targetMin)\<close>; \<open>esRes\<close> and \<open>nqRes\<close> are what the two \<open>fetchTicks\<close>
  calls of \<open>Promise.all\<close> give (\<open>None\<close>: the call throws). The outcome says how the call
  ends: nothing done for an empty day, the \<open>catch\<close> branch, the alert
  "No trading data available.", or \<open>setIsPlaying(true)\<close>.
\<close>

definition loadData ::
  "string \<Rightarrow> int \<Rightarrow> page option \<Rightarrow> page option \<Rightarrow> world \<Rightarrow> load_outcome \<times> world" where
  "loadData dayToLoad targetMin esRes nqRes w =
    (if dayToLoad = [] then (Ignored, w)
     else
       (let w0 = w\<lparr>globalTimeBig := 0, startMinute := MARKET_OPEN_MIN,
                   eng := (\<lambda>k. (eng w k)\<lparr>buffer := [], cursor := 0, done_flag := False,
                                           lastLoadedIndex := - 1, candle := None\<rparr>),
                   series := (\<lambda>k. []),
                   positions := (\<lambda>k. None)\<rparr>
        in case esRes of
             None \<Rightarrow> (LoadError, w0)
           | Some esData \<Rightarrow>
              (case nqRes of
                 None \<Rightarrow> (LoadError, w0)
               | Some nqData \<Rightarrow>
                  (let w1 = w0\<lparr>eng := (eng w0)
                                 (ES := (eng w0 ES)\<lparr>buffer := pg_ticks esData,
                                                    cursor := nextCursor esData,
                                                    done_flag := pg_done esData\<rparr>,
                                  NQ := (eng w0 NQ)\<lparr>buffer := pg_ticks nqData,
                                                    cursor := nextCursor nqData,
                                                    done_flag := pg_done nqData\<rparr>)\<rparr>;
                       startNs = startNsOf (firstTs esData) (firstTs nqData)
                   in if startNs = 0 then (NoTradingData, w1)
                      else
                        (let w2 = w1\<lparr>globalTimeBig := startNs\<rparr> in
                         if targetMin > MARKET_OPEN_MIN then
                           (Playing,
                            showCandle NQ (showCandle ES
                              (snd (processSync targetMin NQ
                                      (processSync targetMin ES (False, w2))))))
                         else (Playing, w2))))))"

section \<open>Stops: \<open>handleChartClick\<close>\<close>

datatype alert = InvalidStop stopKind

text \<open>
  One call of one closure \<open>handleChartClick(param, instrument)\<close>, created by the effect
  under the \<open>editMode\<close> of its render. \<open>hasPoint\<close> is \<open>param.point\<close> being present,
  \<open>coordPrice\<close> the result of \<open>coordinateToPrice\<close> (\<open>None\<close> for \<open>null\<close>). The result is the
  alert shown, if any, the edit mode the closure leaves (\<open>None\<close> when it reaches
  \<open>setEditMode(null)\<close>, its own \<open>editMode\<close> when it returns before) and the new world.
\<close>

definition handleChartClick ::
  "(instrument \<times> stopKind) option \<Rightarrow> bool \<Rightarrow> real option \<Rightarrow> instrument \<Rightarrow> world
     \<Rightarrow> alert option \<times> (instrument \<times> stopKind) option \<times> world" where
  "handleChartClick editMode hasPoint coordPrice inst w =
    (case editMode of
       None \<Rightarrow> (None, editMode, w)
     | Some (esym, ty) \<Rightarrow>
         if esym \<noteq> inst \<or> \<not> hasPoint then (None, editMode, w)
         else if \<not> charts w inst then (None, editMode, w)
         else
           (case coordPrice of
              None \<Rightarrow> (None, editMode, w)
            | Some price \<Rightarrow>
                if price = 0 then (None, editMode, w)
                else
                  (let cp = currentPrice (eng w inst) in
                   case positions w esym of
                     None \<Rightarrow> (None, None, w)
                   | Some pos \<Rightarrow>
                       if (if pos_side pos = LONG
                           then (ty = SL \<and> price \<ge> cp) \<or> (ty = TP \<and> price \<le> cp)
                           else (ty = SL \<and> price \<le> cp) \<or> (ty = TP \<and> price \<ge> cp))
                       then (Some (InvalidStop ty), None, w)
                       else
                         (None, None,
                          w\<lparr>positions := (positions w)(esym \<mapsto>
                               (if ty = SL then pos\<lparr>sl := Some price\<rparr>
                                else pos\<lparr>tp := Some price\<rparr>))\<rparr>))))"

section \<open>Stops: the click subscriptions of the effect\<close>

text \<open>
  The React state \<open>editMode\<close> and, for each chart, the click handlers subscribed to it. A
  handler is a closure \<open>(p) => handleChartClick(p, key)\<close>; what tells one from another is
  the \<open>editMode\<close> it was created under, so a handler is represented by that value.
\<close>

type_synonym editMode = "(instrument \<times> stopKind) option"

record ui =
  ui_editMode :: editMode
  clickSubs :: "instrument \<Rightarrow> editMode list"

text \<open>
  The chart library (lightweight-charts) is not part of the repository. Its chart keeps
  the subscribed click handlers in a list: \<open>subscribeClick(handler)\<close> adds the handler at
  the end, \<open>unsubscribeClick(handler)\<close> removes the handler it is given, and a click calls
  the subscribed handlers in the order of their subscription. The effect calls
  \<open>chart.unsubscribeClick()\<close> with no handler, which removes none, and it returns no
  cleanup function.
\<close>

definition unsubscribeClick :: "editMode list \<Rightarrow> editMode list" where
  "unsubscribeClick subs = subs"

definition subscribeClick :: "editMode \<Rightarrow> editMode list \<Rightarrow> editMode list" where
  "subscribeClick h subs = subs @ [h]"

text \<open>
  The body of the effect with dependency \<open>[editMode]\<close> (page.tsx 273 to 280): for each
  chart that exists, \<open>unsubscribeClick()\<close> and then \<open>subscribeClick\<close> of a closure of the
  current \<open>editMode\<close>.
\<close>

definition editModeEffect :: "world \<Rightarrow> ui \<Rightarrow> ui" where
  "editModeEffect w u =
     u\<lparr>clickSubs := (\<lambda>k. if charts w k
                           then subscribeClick (ui_editMode u) (unsubscribeClick (clickSubs u k))
                           else clickSubs u k)\<rparr>"

text \<open>
  \<open>setEditMode(v)\<close> and the effect that follows the render: setting \<open>null\<close> over \<open>null\<close>
  changes nothing; every other call changes the state (an object is a new value each
  time) and runs the effect.
\<close>

definition setEditMode :: "editMode \<Rightarrow> world \<Rightarrow> ui \<Rightarrow> ui" where
  "setEditMode v w u =
     (if v = None \<and> ui_editMode u = None then u
      else editModeEffect w (u\<lparr>ui_editMode := v\<rparr>))"

text \<open>
  A click on the chart of \<open>inst\<close>: every subscribed handler runs, in order, each under its
  own \<open>editMode\<close>; their \<open>setPositions\<close> updaters apply one after the other, their alerts
  are shown one after the other, and \<open>cleared\<close> records that one of them reached
  \<open>setEditMode(null)\<close>.
\<close>

fun runHandlers ::
  "editMode list \<Rightarrow> bool \<Rightarrow> real option \<Rightarrow> instrument \<Rightarrow> alert list \<times> bool \<times> world
     \<Rightarrow> alert list \<times> bool \<times> world" where
  "runHandlers [] hasPoint coordPrice inst acc = acc"
| "runHandlers (em # rest) hasPoint coordPrice inst (alerts, cleared, w) =
     (case handleChartClick em hasPoint coordPrice inst w of
        (a, em', w') \<Rightarrow>
          runHandlers rest hasPoint coordPrice inst
            (alerts @ (case a of None \<Rightarrow> [] | Some x \<Rightarrow> [x]),
             cleared \<or> (em \<noteq> None \<and> em' = None), w'))"

definition chartClick ::
  "bool \<Rightarrow> real option \<Rightarrow> instrument \<Rightarrow> ui \<times> world \<Rightarrow> alert list \<times> ui \<times> world" where
  "chartClick hasPoint coordPrice inst uw =
    (case runHandlers (clickSubs (fst uw) inst) hasPoint coordPrice inst ([], False, snd uw) of
       (alerts, cleared, w') \<Rightarrow>
         (alerts, (if cleared then setEditMode None w' (fst uw) else fst uw), w'))"

text \<open>
  The SL and TP buttons of a position:
  \<open>onClick={() => setEditMode({ symbol: pos.symbol, type: "SL" })}\<close>.
\<close>

definition pressStopButton :: "instrument \<Rightarrow> stopKind \<Rightarrow> ui \<times> world \<Rightarrow> ui \<times> world" where
  "pressStopButton k ty uw = (setEditMode (Some (k, ty)) (snd uw) (fst uw), snd uw)"

section \<open>Notions used in the statements\<close>

text \<open>A candle whose low and high bound its open and close.\<close>

definition ohlc_ok :: "candle \<Rightarrow> bool" where
  "ohlc_ok cd =
     (c_low cd \<le> min (c_open cd) (c_close cd) \<and> max (c_open cd) (c_close cd) \<le> c_high cd)"

text \<open>
  What \<open>processInstrumentTick\<close> does to the state and the series of its own instrument,
  as a function of these two alone.
\<close>

definition stepInst :: "bool \<Rightarrow> int \<Rightarrow> inst_state \<times> candle list \<Rightarrow> inst_state \<times> candle list" where
  "stepInst hasChart g st =
    (let state = fst st in
     if buffer state = [] \<or> \<not> hasChart then st
     else
       (case foldTicks g (drop (nat (lastLoadedIndex state + 1)) (buffer state))
               (currentPrice state) (candle state) of
          (n, p, c, ups) \<Rightarrow>
            (state\<lparr>lastLoadedIndex := lastLoadedIndex state + int n,
                   currentPrice := p, candle := c\<rparr>, snd st @ ups)))"

text \<open>
  A stop is attached when the field is set and is not 0 (\<open>pos.sl && ...\<close>;
  \<open>handleChartClick\<close> never stores 0). The trigger condition in the words of the
  specification: a LONG closes when \<open>p \<le> sl\<close> or \<open>p \<ge> tp\<close>, a SHORT when \<open>p \<ge> sl\<close> or
  \<open>p \<le> tp\<close>.
\<close>

definition attached :: "real option \<Rightarrow> real option" where
  "attached v = (if v = Some 0 then None else v)"

definition stopHit :: "side \<Rightarrow> real option \<Rightarrow> real option \<Rightarrow> real \<Rightarrow> bool" where
  "stopHit sd slo tpo p =
    (if sd = LONG
     then (case attached slo of None \<Rightarrow> False | Some s \<Rightarrow> p \<le> s)
          \<or> (case attached tpo of None \<Rightarrow> False | Some t \<Rightarrow> p \<ge> t)
     else (case attached slo of None \<Rightarrow> False | Some s \<Rightarrow> p \<ge> s)
          \<or> (case attached tpo of None \<Rightarrow> False | Some t \<Rightarrow> p \<le> t))"

text \<open>
  A placement that would execute at once, in the words of the specification: for a LONG a
  stop-loss not strictly below, or a take-profit not strictly above, the current price;
  for a SHORT the reverse.
\<close>

fun immediateExecution :: "side \<Rightarrow> stopKind \<Rightarrow> real \<Rightarrow> real \<Rightarrow> bool" where
  "immediateExecution LONG SL price cp = (\<not> price < cp)"
| "immediateExecution LONG TP price cp = (\<not> price > cp)"
| "immediateExecution SHORT SL price cp = (\<not> price > cp)"
| "immediateExecution SHORT TP price cp = (\<not> price < cp)"

text \<open>The instrument whose page a suspended refill call waits for.\<close>

fun awaited :: "cont \<Rightarrow> instrument" where
  "awaited (AwaitEs needsNq) = ES"
| "awaited AwaitNq = NQ"




text \<open>
  \<open>Math.floor(deltaMs * 1_000_000 * playbackSpeed)\<close>, the advance of one frame, and the sum
  of the advances of several frames.
\<close>

definition advanceNs :: "real \<Rightarrow> real \<Rightarrow> int" where
  "advanceNs sp d = \<lfloor>d * 1000000 * sp\<rfloor>"

definition totalNs :: "real \<Rightarrow> real list \<Rightarrow> int" where
  "totalNs sp ds = sum_list (map (advanceNs sp) ds)"


text \<open>The instrument's price as the last folded tick left it.\<close>

definition setPrice :: "instrument \<Rightarrow> real \<Rightarrow> world \<Rightarrow> world" where
  "setPrice k p w = w\<lparr>eng := (eng w)(k := (eng w k)\<lparr>currentPrice := p\<rparr>)\<rparr>"

text \<open>
  A sequence of orders on one instrument, each placed when the instrument's price is the
  given one, and the same sequence of fills applied as the specification prescribes.
\<close>

fun placeOrders :: "instrument \<Rightarrow> contractType \<Rightarrow> (side \<times> real \<times> real) list \<Rightarrow> world \<Rightarrow> world" where
  "placeOrders k ct [] w = w"
| "placeOrders k ct ((sd, price, orderSize) # fs) w =
     placeOrders k ct fs (handleOrder k sd orderSize ct (setPrice k price w))"

fun applyFills ::
  "instrument \<Rightarrow> real \<Rightarrow> (side \<times> real \<times> real) list \<Rightarrow> position option \<times> real
     \<Rightarrow> position option \<times> real" where
  "applyFills k mult [] pb = pb"
| "applyFills k mult ((sd, price, fillSize) # fs) pb =
     applyFills k mult fs (applyFill k sd price fillSize mult pb)"

section \<open>Concrete worlds\<close>

text \<open>A world used to run the handlers on concrete inputs.\<close>

definition inst0 :: inst_state where
  "inst0 = \<lparr>buffer = [], cursor = 0, done_flag = False, lastLoadedIndex = - 1,
            currentPrice = 0, candle = None\<rparr>"

definition world0 :: world where
  "world0 = \<lparr>eng = (\<lambda>_. inst0), globalTimeBig = 0, lastFrameTime = 0, loadingMore = False,
             startMinute = 570, charts = (\<lambda>_. True), series = (\<lambda>_. []),
             positions = (\<lambda>_. None), accountBalance = 100000, inflight = None,
             fetchLog = []\<rparr>"

definition tk :: "int \<Rightarrow> real \<Rightarrow> int \<Rightarrow> tick" where
  "tk t p mn = \<lparr>tick_ts = t, tick_price = p, tick_volume = 1, tick_m = mn\<rparr>"

text \<open>A LONG of 2 at 100 on ES, with ES now at 110.\<close>

definition long2 :: position where
  "long2 = \<lparr>symbol = ES, pos_side = LONG, avgPrice = 100, pos_size = 2,
            sl = None, tp = None, pnl = 0\<rparr>"

definition worldLong2 :: world where
  "worldLong2 = (setPrice ES 110 world0)\<lparr>positions := (\<lambda>_. None)(ES \<mapsto> long2)\<rparr>"

text \<open>A LONG of 3 at 100 on ES with a stop-loss at 95, and ES at a given price.\<close>

definition longSl95 :: position where
  "longSl95 = \<lparr>symbol = ES, pos_side = LONG, avgPrice = 100, pos_size = 3,
               sl = Some 95, tp = None, pnl = 0\<rparr>"

definition worldSl95 :: "real \<Rightarrow> world" where
  "worldSl95 p = (setPrice ES p world0)\<lparr>positions := (\<lambda>_. None)(ES \<mapsto> longSl95)\<rparr>"

text \<open>
  The same position in a running session whose ES buffer holds three pending ticks at
  prices 99, 96 and 94, ten nanoseconds apart.
\<close>

definition worldMarks :: world where
  "worldMarks =
     world0\<lparr>eng := (\<lambda>_. inst0)(ES := inst0\<lparr>buffer := [tk 10 99 570, tk 20 96 570, tk 30 94 570],
                                             currentPrice := 100\<rparr>),
            lastFrameTime := 1000,
            positions := (\<lambda>_. None)(ES \<mapsto> longSl95)\<rparr>"

text \<open>Three ticks in timestamp order: two in minute 0 and one in the next minute.\<close>

definition ticks3 :: "tick list" where
  "ticks3 = [tk 0 5 570, tk 30000000000 7 570, tk 61000000000 6 571]"

text \<open>
  ES holds an open candle of the bucket 120 s, already shown on the chart, and one
  pending tick stamped 60 s.
\<close>

definition cd120 :: candle where
  "cd120 = \<lparr>c_time = 120, c_open = 7, c_high = 8, c_low = 6, c_close = 7\<rparr>"

definition worldLate :: world where
  "worldLate =
     world0\<lparr>eng := (\<lambda>_. inst0)(ES := inst0\<lparr>buffer := [tk 60000000000 5 571],
                                             currentPrice := 7, candle := Some cd120\<rparr>),
            series := (\<lambda>_. [])(ES := [cd120])\<rparr>"

text \<open>
  A refill of ES is in flight; the ES buffer ends at timestamp 10 and the NQ buffer is
  empty. The page that arrives holds one tick stamped 5.
\<close>

definition worldAwaitEs :: world where
  "worldAwaitEs =
     world0\<lparr>eng := (\<lambda>_. inst0)(ES := inst0\<lparr>buffer := [tk 10 99 570], cursor := 10\<rparr>),
            loadingMore := True, inflight := Some (AwaitEs False),
            fetchLog := [Fetch ES 10 570]\<rparr>"

definition pageBack :: page where
  "pageBack = \<lparr>pg_ticks = [tk 5 98 570], nextCursor = 5, pg_done = True\<rparr>"

text \<open>
  A running session (last frame at 1000 ms, clock at 0) with one pending ES tick stamped
  33333333 ns.
\<close>

definition worldRun :: world where
  "worldRun =
     world0\<lparr>eng := (\<lambda>_. inst0)(ES := inst0\<lparr>buffer := [tk 33333333 5 570]\<rparr>),
            lastFrameTime := 1000\<rparr>"



text \<open>
  No edit mode and no click handler yet; and the page after these steps: a LONG of 1 on
  ES is opened at price 100, the SL button is pressed and the chart clicked at 95, the
  TP button is pressed and the chart clicked at 105.
\<close>

definition ui0 :: ui where
  "ui0 = \<lparr>ui_editMode = None, clickSubs = (\<lambda>_. [])\<rparr>"

definition stopsPlaced :: "ui \<times> world" where
  "stopsPlaced =
     snd (chartClick True (Some 105) ES (pressStopButton ES TP
       (snd (chartClick True (Some 95) ES (pressStopButton ES SL
          (ui0, handleOrder ES LONG 1 MINI (setPrice ES 100 world0)))))))"

section \<open>Theorems about orders\<close>

text \<open>
  C10. Placing an order for an instrument whose current price is still 0 is a complete
  no-op: the positions, the account balance and the whole engine state are unchanged, no
  position is opened and nothing is raised (the handler returns the world as it was).
\<close>

theorem handleOrder_price_zero_noop:
  "currentPrice (eng w k) = 0 \<Longrightarrow> handleOrder k sd orderSize ct w = w"
  by (simp add: handleOrder_def)

text \<open>
  With no price on ES, a first order opens nothing, and an opposite order of the full
  size leaves an existing position and the balance as they are.
\<close>

theorem handleOrder_price_zero_noop_witness:
  "currentPrice (eng world0 ES) = 0 \<and> handleOrder ES LONG 1 MINI world0 = world0
   \<and> positions (handleOrder ES LONG 1 MINI world0) ES = None
   \<and> currentPrice (eng (worldSl95 0) ES) = 0
   \<and> handleOrder ES SHORT 3 MINI (worldSl95 0) = worldSl95 0
   \<and> positions (handleOrder ES SHORT 3 MINI (worldSl95 0)) ES = Some longSl95"
proof -
  have a: "currentPrice (eng world0 ES) = 0"
    by (simp add: world0_def inst0_def)
  have b: "currentPrice (eng (worldSl95 0) ES) = 0"
    by (simp add: worldSl95_def setPrice_def)
  have c: "positions world0 ES = None" "positions (worldSl95 0) ES = Some longSl95"
    by (simp_all add: world0_def worldSl95_def)
  show ?thesis
    using handleOrder_price_zero_noop [OF a, of LONG 1 MINI]
      handleOrder_price_zero_noop [OF b, of SHORT 3 MINI] a b c
    by simp
qed

text \<open>
  C1. Every order that is filled (the instrument has a price, that is \<open>currentPrice\<close> is not
  0) changes the instrument's position and the account balance exactly as \<open>applyFill\<close>
  prescribes, and nothing else: with no position it opens one at the current price with
  pnl 0; a same-side fill sets the weighted average price and adds the sizes; an
  opposite-side fill smaller than the position realises
  \<open>directionalDiff * fillSize * multiplier\<close> and reduces the size at an unchanged average
  price; an equal one realises the whole size and deletes the position; a larger one
  realises the existing size and opens the remainder on the incoming side at the current
  price. The state \<open>w\<close> is arbitrary, so this holds after every sequence of earlier fills.
  The same-side quotient is taken where the total size is not 0 (JavaScript divides by
  zero to NaN or an infinity, which the reals do not have).
\<close>

theorem handleOrder_applies_fill:
  assumes "currentPrice (eng w k) \<noteq> 0"
    and "\<forall>ex. positions w k = Some ex \<and> pos_side ex = sd \<longrightarrow> pos_size ex + orderSize \<noteq> 0"
  shows "handleOrder k sd orderSize ct w =
      w\<lparr>positions := (positions w)(k := fst (applyFill k sd (currentPrice (eng w k)) orderSize
                                              (multiplier ct k) (positions w k, accountBalance w))),
        accountBalance := snd (applyFill k sd (currentPrice (eng w k)) orderSize
                                              (multiplier ct k) (positions w k, accountBalance w))\<rparr>"
  using assms(1)
  by (cases "positions w k") (auto simp: handleOrder_def applyFill_def Let_def)

text \<open>
  The specification's example: LONG 2 at 100, then SHORT 1 at 110, leaves LONG 1 at 100
  and realises \<open>(110 - 100) * 1 * multiplier\<close>.
\<close>

theorem handleOrder_applies_fill_witness:
  "positions (handleOrder ES SHORT 1 MINI worldLong2) ES = Some (long2\<lparr>pos_size := 1\<rparr>)
   \<and> accountBalance (handleOrder ES SHORT 1 MINI worldLong2) = 100000 + (110 - 100) * 1 * 50"
proof -
  have h1: "currentPrice (eng worldLong2 ES) \<noteq> 0"
    by (simp add: worldLong2_def setPrice_def world0_def inst0_def)
  have h2: "\<forall>ex. positions worldLong2 ES = Some ex \<and> pos_side ex = SHORT
                \<longrightarrow> pos_size ex + 1 \<noteq> 0"
    by (simp add: worldLong2_def long2_def)
  show ?thesis
    using handleOrder_applies_fill [OF h1 h2, of MINI]
    by (simp add: applyFill_def worldLong2_def long2_def setPrice_def world0_def inst0_def
        directionalDiff_def multiplier_def)
qed

text \<open>The other two examples of the specification, run from an empty book.\<close>

lemma handleOrder_example_add:
  "positions (handleOrder ES LONG 1 MINI (setPrice ES 100
       (handleOrder ES LONG 1 MINI (setPrice ES 100 world0)))) ES
   = Some \<lparr>symbol = ES, pos_side = LONG, avgPrice = 100, pos_size = 2,
            sl = None, tp = None, pnl = 0\<rparr>"
  by (simp add: handleOrder_def setPrice_def world0_def inst0_def)

lemma handleOrder_example_flip:
  "positions (handleOrder ES SHORT 2 MINI (setPrice ES 90
       (handleOrder ES LONG 1 MINI (setPrice ES 100 world0)))) ES
   = Some \<lparr>symbol = ES, pos_side = SHORT, avgPrice = 90, pos_size = 1,
            sl = None, tp = None, pnl = 0\<rparr>
   \<and> accountBalance (handleOrder ES SHORT 2 MINI (setPrice ES 90
       (handleOrder ES LONG 1 MINI (setPrice ES 100 world0))))
     = 100000 + (90 - 100) * 1 * 50"
  by (simp add: handleOrder_def setPrice_def world0_def inst0_def directionalDiff_def
      multiplier_def)

text \<open>Hence every sequence of filled orders follows the specification's algorithm.\<close>

lemma handleOrder_book:
  "currentPrice (eng w k) \<noteq> 0 \<Longrightarrow>
   (positions (handleOrder k sd orderSize ct w) k, accountBalance (handleOrder k sd orderSize ct w))
     = applyFill k sd (currentPrice (eng w k)) orderSize (multiplier ct k)
         (positions w k, accountBalance w)"
  by (cases "positions w k") (auto simp: handleOrder_def applyFill_def Let_def)

lemma placeOrders_applyFills:
  "\<forall>f \<in> set fs. fst (snd f) \<noteq> 0 \<Longrightarrow>
   (positions (placeOrders k ct fs w) k, accountBalance (placeOrders k ct fs w))
     = applyFills k (multiplier ct k) fs (positions w k, accountBalance w)"
proof (induction fs arbitrary: w)
  case Nil
  then show ?case by simp
next
  case (Cons f fs)
  obtain sd price orderSize where f: "f = (sd, price, orderSize)"
    by (cases f)
  let ?w = "setPrice k price w"
  have p: "currentPrice (eng ?w k) \<noteq> 0" "currentPrice (eng ?w k) = price"
    "positions ?w = positions w" "accountBalance ?w = accountBalance w"
    using Cons.prems by (simp_all add: f setPrice_def)
  have "(positions (placeOrders k ct (f # fs) w) k, accountBalance (placeOrders k ct (f # fs) w))
      = applyFills k (multiplier ct k) fs
          (positions (handleOrder k sd orderSize ct ?w) k,
           accountBalance (handleOrder k sd orderSize ct ?w))"
    using Cons.IH [of "handleOrder k sd orderSize ct ?w"] Cons.prems by (simp add: f)
  also have "\<dots> = applyFills k (multiplier ct k) (f # fs) (positions w k, accountBalance w)"
    by (simp add: handleOrder_book [OF p(1)] p f)
  finally show ?case .
qed

section \<open>Theorems about mark to market\<close>

text \<open>Without a price (\<open>currentPrice\<close> still 0) the position is not marked at all.\<close>

lemma updatePnLKey_no_price:
  "currentPrice (eng w k) = 0 \<Longrightarrow> updatePnLKey ct k w = w"
  by (cases "positions w k") (simp_all add: updatePnLKey_def)

text \<open>Marking one instrument leaves the position of the other alone.\<close>

lemma updatePnLKey_other:
  "k' \<noteq> k \<Longrightarrow> positions (updatePnLKey ct k w) k' = positions w k'"
  by (auto simp: updatePnLKey_def Let_def split: option.splits)

text \<open>
  C2. For an open position, a mark at the price \<open>p\<close> of its instrument recomputes
  \<open>directionalDiff side avgPrice p * multiplier * size\<close> and then looks at the attached
  stops: a LONG closes when \<open>p \<le> sl\<close> or \<open>p \<ge> tp\<close>, a SHORT when \<open>p \<ge> sl\<close> or \<open>p \<le> tp\<close>.
  On a trigger the recomputed amount is added to the account balance and the position
  is deleted; otherwise the position stays open, with the recomputed amount as its pnl.
\<close>

theorem updatePnLKey_mark:
  assumes "positions w k = Some pos" and "currentPrice (eng w k) = p" and "p \<noteq> 0"
  shows "updatePnLKey ct k w =
    (if stopHit (pos_side pos) (sl pos) (tp pos) p
     then w\<lparr>positions := (positions w)(k := None),
            accountBalance := accountBalance w
               + directionalDiff (pos_side pos) (avgPrice pos) p * multiplier ct k * pos_size pos\<rparr>
     else w\<lparr>positions := (positions w)(k \<mapsto>
            pos\<lparr>pnl := directionalDiff (pos_side pos) (avgPrice pos) p * multiplier ct k
                          * pos_size pos\<rparr>)\<rparr>)"
  using assms
  by (cases "pos_side pos"; cases "sl pos"; cases "tp pos")
     (auto simp: updatePnLKey_def stopHit_def attached_def directionalDiff_def Let_def)

text \<open>A LONG of 3 at 100 with SL 95: open at 96 with pnl \<open>(96 - 100) * 50 * 3\<close>, closed at 94.\<close>

theorem updatePnLKey_mark_witness:
  "positions (updatePnLKey MINI ES (worldSl95 94)) ES = None
   \<and> accountBalance (updatePnLKey MINI ES (worldSl95 94)) = 100000 + (94 - 100) * 3 * 50
   \<and> positions (updatePnLKey MINI ES (worldSl95 96)) ES
       = Some (longSl95\<lparr>pnl := (96 - 100) * 50 * 3\<rparr>)
   \<and> accountBalance (updatePnLKey MINI ES (worldSl95 96)) = 100000"
proof -
  have a: "positions (worldSl95 p) ES = Some longSl95" for p
    by (simp add: worldSl95_def)
  have b: "currentPrice (eng (worldSl95 p) ES) = p" for p
    by (simp add: worldSl95_def setPrice_def)
  have c: "(94::real) \<noteq> 0" "(96::real) \<noteq> 0"
    by simp_all
  show ?thesis
    using updatePnLKey_mark [OF a b c(1), of MINI] updatePnLKey_mark [OF a b c(2), of MINI]
    by (simp add: stopHit_def attached_def longSl95_def worldSl95_def setPrice_def world0_def
        directionalDiff_def multiplier_def)
qed

text \<open>
  The specification's price sequence 99, 96, 94 run through the frame loop, one tick per
  frame: the position is still open after the marks at 99 and 96 and is closed by the
  mark at 94, which realises \<open>(94 - 100) * size * multiplier\<close>.
\<close>

lemma loop_marks_99_96_94:
  "positions (frames 1 MINI [1/100000] worldMarks) ES
     = Some (longSl95\<lparr>pnl := (99 - 100) * 50 * 3\<rparr>)
   \<and> positions (frames 1 MINI [1/100000, 1/100000] worldMarks) ES
     = Some (longSl95\<lparr>pnl := (96 - 100) * 50 * 3\<rparr>)
   \<and> positions (frames 1 MINI [1/100000, 1/100000, 1/100000] worldMarks) ES = None
   \<and> accountBalance (frames 1 MINI [1/100000, 1/100000, 1/100000] worldMarks)
     = 100000 + (94 - 100) * 3 * 50"
  by code_simp

section \<open>Theorems about candles\<close>

lemma foldTick_ok: "(\<And>cd. c = Some cd \<Longrightarrow> ohlc_ok cd) \<Longrightarrow> ohlc_ok (foldTick t c)"
  by (cases c) (auto simp: foldTick_def newCandle_def ohlc_ok_def Let_def)

lemma foldTick_time: "c_time (foldTick t c) = minuteTime (tick_ts t)"
  by (cases c) (auto simp: foldTick_def newCandle_def Let_def)

text \<open>Truncating division by a positive number is monotone, and so is the minute bucket.\<close>

lemma sdiv_mono: "a \<le> b \<Longrightarrow> a sdiv (1000000000::int) \<le> b sdiv 1000000000"
proof -
  assume ab: "a \<le> b"
  have tr: "x sdiv (1000000000::int)
              = (if 0 \<le> x then x div 1000000000 else - ((- x) div 1000000000))" for x
    by (cases "x = 0") (auto simp: signed_divide_int_def sgn_if)
  show ?thesis
  proof (cases "0 \<le> a")
    case True
    with ab show ?thesis by (simp add: tr zdiv_mono1)
  next
    case na: False
    show ?thesis
    proof (cases "0 \<le> b")
      case True
      have "- ((- a) div 1000000000) \<le> (0::int)"
        using na by (simp add: pos_imp_zdiv_nonneg_iff)
      moreover have "0 \<le> b div 1000000000"
        using True by (simp add: pos_imp_zdiv_nonneg_iff)
      ultimately show ?thesis using na True by (simp add: tr)
    next
      case False
      have "(- b) div 1000000000 \<le> (- a) div 1000000000"
        using ab by (simp add: zdiv_mono1)
      with na False show ?thesis by (simp add: tr)
    qed
  qed
qed

lemma minuteTime_mono: "a \<le> b \<Longrightarrow> minuteTime a \<le> minuteTime b"
  unfolding minuteTime_def using sdiv_mono [of a b] by (simp add: zdiv_mono1)

lemma sorted_minuteTime: "sorted xs \<Longrightarrow> sorted (map minuteTime xs)"
  by (induction xs) (auto simp: minuteTime_mono)

lemma sorted_map_take: "sorted (map f xs) \<Longrightarrow> sorted (map f (take n xs))"
  by (simp add: take_map [symmetric] sorted_wrt_take)

text \<open>
  The loop emits one candle per consumed tick, in the tick's own minute bucket, and the
  candle it leaves is the last one emitted.
\<close>

lemma foldTicks_ups:
  "foldTicks g ticks p c = (n, p', c', ups) \<Longrightarrow>
     n \<le> length ticks \<and> length ups = n
     \<and> map c_time ups = map (\<lambda>t. minuteTime (tick_ts t)) (take n ticks)
     \<and> c' = (if ups = [] then c else Some (last ups))"
proof (induction ticks arbitrary: p c n p' c' ups)
  case Nil
  then show ?case by simp
next
  case (Cons t rest)
  show ?case
  proof (cases "tick_ts t > g")
    case True
    with Cons.prems show ?thesis by simp
  next
    case False
    obtain n1 p1 c1 u1
      where r: "foldTicks g rest (tick_price t) (Some (foldTick t c)) = (n1, p1, c1, u1)"
      by (metis prod_cases4)
    from Cons.IH [OF r] have ih: "n1 \<le> length rest" "length u1 = n1"
      "map c_time u1 = map (\<lambda>t. minuteTime (tick_ts t)) (take n1 rest)"
      "c1 = (if u1 = [] then Some (foldTick t c) else Some (last u1))"
      by simp_all
    from Cons.prems False r
    have e: "n = Suc n1" "p' = p1" "c' = c1" "ups = foldTick t c # u1"
      by simp_all
    show ?thesis using ih by (simp add: e foldTick_time)
  qed
qed

lemma foldTicks_ok:
  "foldTicks g ticks p c = (n, p', c', ups) \<Longrightarrow> (\<And>cd. c = Some cd \<Longrightarrow> ohlc_ok cd)
     \<Longrightarrow> \<forall>cd \<in> set ups. ohlc_ok cd"
proof (induction ticks arbitrary: p c n p' c' ups)
  case Nil
  then show ?case by simp
next
  case (Cons t rest)
  show ?case
  proof (cases "tick_ts t > g")
    case True
    with Cons.prems show ?thesis by simp
  next
    case False
    obtain n1 p1 c1 u1
      where r: "foldTicks g rest (tick_price t) (Some (foldTick t c)) = (n1, p1, c1, u1)"
      by (metis prod_cases4)
    have ok: "ohlc_ok (foldTick t c)"
      using Cons.prems(2) by (rule foldTick_ok)
    from Cons.IH [OF r] ok have "\<forall>cd \<in> set u1. ohlc_ok cd"
      by simp
    moreover from Cons.prems False r have "ups = foldTick t c # u1"
      by simp
    ultimately show ?thesis using ok by simp
  qed
qed

text \<open>
  C5. Fold a tick sequence ordered non-decreasingly by timestamp, starting with no
  candle, up to any clock value \<open>g\<close>. Every candle the loop emits, and the candle it
  leaves open, has \<open>low \<le> min open close\<close> and \<open>high \<ge> max open close\<close>; the bucket times
  of the successive candles are non-decreasing; and every candle's bucket is the minute
  of one of the ticks, so no candle is produced for a minute without ticks.
\<close>

theorem candles_wellformed:
  assumes "sorted (map tick_ts ticks)"
    and "foldTicks g ticks p None = (n, p', c', ups)"
  shows "(\<forall>cd \<in> set ups. c_low cd \<le> min (c_open cd) (c_close cd)
                          \<and> max (c_open cd) (c_close cd) \<le> c_high cd)
       \<and> (\<forall>cd. c' = Some cd \<longrightarrow> c_low cd \<le> min (c_open cd) (c_close cd)
                          \<and> max (c_open cd) (c_close cd) \<le> c_high cd)
       \<and> sorted (map c_time ups)
       \<and> (\<forall>cd \<in> set ups. \<exists>t \<in> set ticks. c_time cd = minuteTime (tick_ts t))
       \<and> (\<forall>cd. c' = Some cd \<longrightarrow> (\<exists>t \<in> set ticks. c_time cd = minuteTime (tick_ts t)))"
proof -
  from foldTicks_ups [OF assms(2)] have n: "n \<le> length ticks" "length ups = n"
    and times: "map c_time ups = map (\<lambda>t. minuteTime (tick_ts t)) (take n ticks)"
    and c': "c' = (if ups = [] then None else Some (last ups))"
    by simp_all
  have ok: "\<forall>cd \<in> set ups. ohlc_ok cd"
    using foldTicks_ok [OF assms(2)] by simp
  have last_in: "c' = Some cd \<Longrightarrow> cd \<in> set ups" for cd
    using c' by (cases "ups = []") auto
  have "sorted (map tick_ts (take n ticks))"
    using assms(1) by (rule sorted_map_take)
  then have "sorted (map minuteTime (map tick_ts (take n ticks)))"
    by (rule sorted_minuteTime)
  then have srt: "sorted (map c_time ups)"
    by (simp add: times comp_def)
  have mem: "\<exists>t \<in> set ticks. c_time cd = minuteTime (tick_ts t)" if "cd \<in> set ups" for cd
  proof -
    from that have "c_time cd \<in> set (map c_time ups)"
      by simp
    then have "c_time cd \<in> set (map (\<lambda>t. minuteTime (tick_ts t)) (take n ticks))"
      by (simp only: times)
    then obtain t where "t \<in> set (take n ticks)" "c_time cd = minuteTime (tick_ts t)"
      by auto
    then show ?thesis by (meson in_set_takeD)
  qed
  show ?thesis using ok srt mem last_in by (auto simp: ohlc_ok_def)
qed

text \<open>
  Witness of C5 on three ticks: the loop emits the candles of the buckets 0, 0 and 60.
\<close>

theorem candles_wellformed_witness:
  "sorted (map tick_ts ticks3)
   \<and> foldTicks 100000000000 ticks3 0 None
       = (3, 6, Some (newCandle 60 6),
          [newCandle 0 5, (newCandle 0 5)\<lparr>c_high := 7, c_close := 7\<rparr>, newCandle 60 6])
   \<and> sorted (map c_time (snd (snd (snd (foldTicks 100000000000 ticks3 0 None)))))"
proof -
  have h1: "sorted (map tick_ts ticks3)"
    by (simp add: ticks3_def tk_def)
  have h2: "foldTicks 100000000000 ticks3 0 None
       = (3, 6, Some (newCandle 60 6),
          [newCandle 0 5, (newCandle 0 5)\<lparr>c_high := 7, c_close := 7\<rparr>, newCandle 60 6])"
    by code_simp
  from candles_wellformed [OF h1 h2] show ?thesis
    using h1 h2 by simp
qed

text \<open>
  C6, as stated, fails: the open candle has bucket 120 and the next tick is stamped in
  bucket 60. The claim keeps the candle at bucket 120 with low and close 5; the code
  replaces it by a new candle of bucket 60 and hands that candle to the chart.
\<close>

theorem earlier_bucket_counterexample:
  "minuteTime 60000000000 < c_time cd120
   \<and> candle (eng (processInstrumentTick ES 100000000000 worldLate) ES) = Some (newCandle 60 5)
   \<and> candle (eng (processInstrumentTick ES 100000000000 worldLate) ES)
       \<noteq> Some (cd120\<lparr>c_low := 5, c_close := 5\<rparr>)
   \<and> series (processInstrumentTick ES 100000000000 worldLate) ES = [cd120, newCandle 60 5]"
  by code_simp

text \<open>
  C6, amended. A tick whose minute bucket is earlier than the open candle's bucket is
  treated like any tick of another minute: the open candle is replaced by a new candle
  at the tick's own, earlier, bucket with open, high, low and close equal to the tick's
  price, and this new candle is appended to the updates given to the chart; the
  candles given to the chart before are not touched.
\<close>

theorem earlier_bucket_replaces_candle:
  assumes "charts w k"
    and "drop (nat (lastLoadedIndex (eng w k) + 1)) (buffer (eng w k)) = [t]"
    and "tick_ts t \<le> g"
    and "candle (eng w k) = Some cd"
    and "minuteTime (tick_ts t) < c_time cd"
  shows "candle (eng (processInstrumentTick k g w) k)
           = Some (newCandle (minuteTime (tick_ts t)) (tick_price t))
       \<and> series (processInstrumentTick k g w) k
           = series w k @ [newCandle (minuteTime (tick_ts t)) (tick_price t)]"
proof -
  from assms(2) have ne: "buffer (eng w k) \<noteq> []"
    by auto
  have ft: "foldTick t (Some cd) = newCandle (minuteTime (tick_ts t)) (tick_price t)"
    using assms(5) by (simp add: foldTick_def Let_def)
  show ?thesis
    using assms(1,3,4) ne by (simp add: processInstrumentTick_def assms(2) ft Let_def)
qed

theorem earlier_bucket_replaces_candle_witness:
  "candle (eng (processInstrumentTick ES 100000000000 worldLate) ES) = Some (newCandle 60 5)
   \<and> series (processInstrumentTick ES 100000000000 worldLate) ES
       = series worldLate ES @ [newCandle 60 5]"
proof -
  have a: "charts worldLate ES"
    by (simp add: worldLate_def world0_def)
  have b: "drop (nat (lastLoadedIndex (eng worldLate ES) + 1)) (buffer (eng worldLate ES))
             = [tk 60000000000 5 571]"
    by (simp add: worldLate_def inst0_def)
  have c: "tick_ts (tk 60000000000 5 571) \<le> 100000000000"
    by (simp add: tk_def)
  have d: "candle (eng worldLate ES) = Some cd120"
    by (simp add: worldLate_def)
  have m: "minuteTime 60000000000 = 60"
    by (simp add: minuteTime_def signed_divide_int_def)
  have e: "minuteTime (tick_ts (tk 60000000000 5 571)) < c_time cd120"
    by (simp add: tk_def cd120_def m)
  from earlier_bucket_replaces_candle [OF a b c d e] show ?thesis
    by (simp add: tk_def m)
qed

section \<open>Theorems about stops\<close>

text \<open>
  C7 does not hold on the page. A LONG on ES at current price 100 has SL 95 and TP 105,
  both placed through the chart. The SL button is pressed and the chart is clicked at
  101, a stop-loss that would execute at once. The request is rejected with the alert
  (shown twice) and SL stays at 95, but TP moves from 105 to 101: the handler subscribed
  when the TP was placed is still subscribed, since \<open>unsubscribeClick()\<close> is called
  without a handler, and it runs on the same click under its old edit mode.
\<close>

theorem stale_handler_moves_take_profit:
  "pos_side (the (positions (snd stopsPlaced) ES)) = LONG
   \<and> currentPrice (eng (snd stopsPlaced) ES) = 100
   \<and> sl (the (positions (snd stopsPlaced) ES)) = Some 95
   \<and> tp (the (positions (snd stopsPlaced) ES)) = Some 105
   \<and> clickSubs (fst stopsPlaced) ES = [Some (ES, SL), None, Some (ES, TP), None]
   \<and> ui_editMode (fst (pressStopButton ES SL stopsPlaced)) = Some (ES, SL)
   \<and> immediateExecution LONG SL 101 100
   \<and> fst (chartClick True (Some 101) ES (pressStopButton ES SL stopsPlaced))
       = [InvalidStop SL, InvalidStop SL]
   \<and> sl (the (positions (snd (snd (chartClick True (Some 101) ES
                (pressStopButton ES SL stopsPlaced)))) ES)) = Some 95
   \<and> tp (the (positions (snd (snd (chartClick True (Some 101) ES
                (pressStopButton ES SL stopsPlaced)))) ES)) = Some 101"
  by code_simp

text \<open>
  What one closure does. Called under the edit mode of the request, it rejects a
  placement that would execute at once (LONG: stop-loss not strictly below,
  take-profit not strictly above, the current price; SHORT: the reverse): the alert is
  shown and the world is unchanged.
\<close>

lemma handleChartClick_rejects_immediate:
  assumes "positions w k = Some pos" and "charts w k" and "price \<noteq> 0"
    and "immediateExecution (pos_side pos) ty price (currentPrice (eng w k))"
  shows "handleChartClick (Some (k, ty)) True (Some price) k w
           = (Some (InvalidStop ty), None, w)"
  using assms
  by (cases "pos_side pos"; cases ty) (auto simp: handleChartClick_def Let_def)

lemma handleChartClick_rejects_example:
  "handleChartClick (Some (ES, SL)) True (Some 101) ES (worldSl95 100)
     = (Some (InvalidStop SL), None, worldSl95 100)"
proof -
  have a: "positions (worldSl95 100) ES = Some longSl95"
    by (simp add: worldSl95_def)
  have b: "charts (worldSl95 100) ES"
    by (simp add: worldSl95_def setPrice_def world0_def)
  have c: "(101::real) \<noteq> 0"
    by simp
  have d: "immediateExecution (pos_side longSl95) SL 101 (currentPrice (eng (worldSl95 100) ES))"
    by (simp add: longSl95_def worldSl95_def setPrice_def)
  from handleChartClick_rejects_immediate [OF a b c d] show ?thesis .
qed

text \<open>A placement that would not execute at once is stored, and only the one stop changes.\<close>

lemma handleChartClick_accepts:
  assumes "positions w k = Some pos" and "charts w k" and "price \<noteq> 0"
    and "\<not> immediateExecution (pos_side pos) ty price (currentPrice (eng w k))"
  shows "handleChartClick (Some (k, ty)) True (Some price) k w =
     (None, None, w\<lparr>positions := (positions w)(k \<mapsto>
          (if ty = SL then pos\<lparr>sl := Some price\<rparr> else pos\<lparr>tp := Some price\<rparr>))\<rparr>)"
  using assms
  by (cases "pos_side pos"; cases ty) (auto simp: handleChartClick_def Let_def)

text \<open>A click for which \<open>coordinateToPrice\<close> gives 0 or \<open>null\<close> is dropped without an alert.\<close>

lemma handleChartClick_no_price:
  "handleChartClick em hasPoint None k w = (None, em, w)"
  "handleChartClick em hasPoint (Some 0) k w = (None, em, w)"
  by (auto simp: handleChartClick_def split: option.splits)

text \<open>
  Were the handler of the request the only one subscribed, as the call of
  \<open>unsubscribeClick\<close> intends, the click would show the alert once and leave the world,
  hence the existing SL and TP, unchanged.
\<close>

lemma chartClick_single_rejects:
  assumes "clickSubs u k = [Some (k, ty)]"
    and "positions w k = Some pos" and "charts w k" and "price \<noteq> 0"
    and "immediateExecution (pos_side pos) ty price (currentPrice (eng w k))"
  shows "fst (chartClick True (Some price) k (u, w)) = [InvalidStop ty]
       \<and> snd (snd (chartClick True (Some price) k (u, w))) = w"
  using assms
  by (cases "pos_side pos"; cases ty) (auto simp: chartClick_def handleChartClick_def Let_def)

section \<open>Theorems about refill\<close>

text \<open>
  C8, as stated, fails: the buffer ends at timestamp 10 and the arriving page holds a
  tick stamped 5. The claim rejects the page and keeps the buffer; the code appends it.
\<close>

theorem append_unchecked_counterexample:
  "tick_ts (tk 5 98 570) < tick_ts (last (buffer (eng worldAwaitEs ES)))
   \<and> buffer (eng (fetchSettled (Some pageBack) worldAwaitEs) ES) = [tk 10 99 570, tk 5 98 570]
   \<and> buffer (eng (fetchSettled (Some pageBack) worldAwaitEs) ES)
       \<noteq> buffer (eng worldAwaitEs ES)"
  by code_simp

text \<open>
  C8, amended. Every page that arrives for a refill is appended to the buffer of its
  stream, in order and whatever its timestamps are: no ordering check is made, no page
  is rejected and no error is raised.
\<close>

theorem fetchSettled_appends:
  "inflight w = Some c \<Longrightarrow>
   buffer (eng (fetchSettled (Some data) w) (awaited c))
     = buffer (eng w (awaited c)) @ pg_ticks data"
  by (cases c) (auto simp: fetchSettled_def appendPage_def Let_def)

theorem fetchSettled_appends_witness:
  "buffer (eng (fetchSettled (Some pageBack) worldAwaitEs) ES)
     = buffer (eng worldAwaitEs ES) @ pg_ticks pageBack"
proof -
  have a: "inflight worldAwaitEs = Some (AwaitEs False)"
    by (simp add: worldAwaitEs_def)
  from fetchSettled_appends [OF a, of pageBack] show ?thesis
    by simp
qed

text \<open>
  C9, as stated, fails: a refill of ES is in flight, NQ is not exhausted and has fewer
  than 10000 pending ticks, and the check issues no request for NQ.
\<close>

theorem refill_suppressed_counterexample:
  "loadingMore worldAwaitEs \<and> needsRefill (eng worldAwaitEs NQ)
   \<and> fetchLog (checkAndFetchMore worldAwaitEs) = fetchLog worldAwaitEs"
  by code_simp

text \<open>
  C9, amended. The refill check is guarded by one in-flight flag shared by both
  streams. While a refill is in flight a check issues no request for either stream.
  Otherwise the check issues exactly one request, for ES if ES needs a refill (not
  exhausted and \<open>buffer.length - lastLoadedIndex < 10000\<close>) and else for NQ if NQ needs
  one, and sets the flag exactly when it issues a request; when both streams needed a
  refill, the request for NQ is issued when the ES page arrives.
\<close>

theorem checkAndFetchMore_requests:
  "fetchLog (checkAndFetchMore w) = fetchLog w @
     (if loadingMore w then []
      else if needsRefill (eng w ES) then [Fetch ES (cursor (eng w ES)) (startMinute w)]
      else if needsRefill (eng w NQ) then [Fetch NQ (cursor (eng w NQ)) (startMinute w)]
      else [])
   \<and> loadingMore (checkAndFetchMore w)
       = (loadingMore w \<or> needsRefill (eng w ES) \<or> needsRefill (eng w NQ))
   \<and> (inflight w = Some (AwaitEs True) \<longrightarrow>
        fetchLog (fetchSettled (Some data) w)
          = fetchLog w @ [Fetch NQ (cursor (eng w NQ)) (startMinute w)])"
  by (auto simp: checkAndFetchMore_def fetchSettled_def appendPage_def Let_def)

theorem checkAndFetchMore_requests_witness:
  "fetchLog (checkAndFetchMore world0) = [Fetch ES 0 570]
   \<and> loadingMore (checkAndFetchMore world0)
   \<and> fetchLog (checkAndFetchMore (checkAndFetchMore world0)) = [Fetch ES 0 570]
   \<and> fetchLog (fetchSettled (Some pageBack) (checkAndFetchMore world0))
       = [Fetch ES 0 570, Fetch NQ 0 570]"
proof -
  have n: "needsRefill (eng world0 ES)" "needsRefill (eng world0 NQ)" "\<not> loadingMore world0"
    by code_simp+
  have i: "inflight (checkAndFetchMore world0) = Some (AwaitEs True)"
    by code_simp
  have e: "cursor (eng world0 ES) = 0" "startMinute world0 = 570" "fetchLog world0 = []"
    "cursor (eng (checkAndFetchMore world0) NQ) = 0"
    "startMinute (checkAndFetchMore world0) = 570"
    by code_simp+
  from checkAndFetchMore_requests [of world0 pageBack]
       checkAndFetchMore_requests [of "checkAndFetchMore world0" pageBack]
  show ?thesis using n i e by simp
qed

section \<open>Theorems about the frame loop\<close>

lemma processInstrumentTick_stepInst:
  "processInstrumentTick k g w =
     w\<lparr>eng := (eng w)(k := fst (stepInst (charts w k) g (eng w k, series w k))),
       series := (series w)(k := snd (stepInst (charts w k) g (eng w k, series w k)))\<rparr>"
  by (auto simp: processInstrumentTick_def stepInst_def Let_def split: prod.splits)

lemma foldTicks_split:
  "g1 \<le> g2 \<Longrightarrow> foldTicks g1 xs p c = (n1, p1, c1, u1) \<Longrightarrow>
   foldTicks g2 (drop n1 xs) p1 c1 = (n2, p2, c2, u2) \<Longrightarrow>
   foldTicks g2 xs p c = (n1 + n2, p2, c2, u1 @ u2)"
proof (induction xs arbitrary: p c n1 p1 c1 u1)
  case Nil
  then show ?case by simp
next
  case (Cons t rest)
  show ?case
  proof (cases "tick_ts t > g1")
    case True
    with Cons.prems show ?thesis by simp
  next
    case False
    obtain m q d v
      where r: "foldTicks g1 rest (tick_price t) (Some (foldTick t c)) = (m, q, d, v)"
      by (metis prod_cases4)
    from Cons.prems(2) False r
    have e: "n1 = Suc m" "p1 = q" "c1 = d" "u1 = foldTick t c # v"
      by simp_all
    from Cons.prems(3) have "foldTicks g2 (drop m rest) q d = (n2, p2, c2, u2)"
      by (simp add: e)
    from Cons.IH [OF Cons.prems(1) r this]
    have "foldTicks g2 rest (tick_price t) (Some (foldTick t c)) = (m + n2, p2, c2, v @ u2)" .
    moreover from False Cons.prems(1) have "\<not> tick_ts t > g2" by simp
    ultimately show ?thesis by (simp add: e)
  qed
qed

lemma foldTicks_length: "foldTicks g xs p c = (n, p', c', u) \<Longrightarrow> n \<le> length xs"
proof (induction xs arbitrary: p c n p' c' u)
  case Nil
  then show ?case by simp
next
  case (Cons t rest)
  then show ?case
    by (cases "tick_ts t > g") (auto split: prod.splits)
qed

lemma stepInst_twice:
  assumes "g1 \<le> g2" and "- 1 \<le> lastLoadedIndex (fst st)"
  shows "stepInst hc g2 (stepInst hc g1 st) = stepInst hc g2 st"
proof (cases "buffer (fst st) = [] \<or> \<not> hc")
  case True
  then show ?thesis by (auto simp: stepInst_def)
next
  case False
  obtain s sr where st: "st = (s, sr)" by (cases st)
  let ?pend = "drop (nat (lastLoadedIndex s + 1)) (buffer s)"
  obtain n1 p1 c1 u1
    where r1: "foldTicks g1 ?pend (currentPrice s) (candle s) = (n1, p1, c1, u1)"
    by (metis prod_cases4)
  obtain n2 p2 c2 u2
    where r2: "foldTicks g2 (drop n1 ?pend) p1 c1 = (n2, p2, c2, u2)"
    by (metis prod_cases4)
  have r12: "foldTicks g2 ?pend (currentPrice s) (candle s) = (n1 + n2, p2, c2, u1 @ u2)"
    using assms(1) r1 r2 by (rule foldTicks_split)
  have idx: "nat (lastLoadedIndex s + int n1 + 1) = n1 + nat (lastLoadedIndex s + 1)"
    using assms(2) by (simp add: st)
  have r2': "foldTicks g2 (drop (nat (lastLoadedIndex s + int n1 + 1)) (buffer s)) p1 c1
               = (n2, p2, c2, u2)"
    using r2 by (simp add: idx)
  have one: "stepInst hc g1 st
      = (s\<lparr>lastLoadedIndex := lastLoadedIndex s + int n1, currentPrice := p1, candle := c1\<rparr>,
         sr @ u1)"
    using False by (simp add: stepInst_def st r1)
  have two: "stepInst hc g2 st
      = (s\<lparr>lastLoadedIndex := lastLoadedIndex s + int (n1 + n2), currentPrice := p2,
            candle := c2\<rparr>, sr @ u1 @ u2)"
    using False by (simp add: stepInst_def st r12)
  have "stepInst hc g2
          (s\<lparr>lastLoadedIndex := lastLoadedIndex s + int n1, currentPrice := p1, candle := c1\<rparr>,
           sr @ u1)
      = (s\<lparr>lastLoadedIndex := lastLoadedIndex s + int (n1 + n2), currentPrice := p2,
            candle := c2\<rparr>, sr @ u1 @ u2)"
    using False by (simp add: stepInst_def st r2')
  then show ?thesis
    by (simp only: one two)
qed

lemma stepInst_index:
  "- 1 \<le> lastLoadedIndex (fst st) \<Longrightarrow> - 1 \<le> lastLoadedIndex (fst (stepInst hc g st))"
  by (auto simp: stepInst_def Let_def split: prod.splits)

lemma updatePnLKey_frame:
  "eng (updatePnLKey ct k w) = eng w" "series (updatePnLKey ct k w) = series w"
  "charts (updatePnLKey ct k w) = charts w" "globalTimeBig (updatePnLKey ct k w) = globalTimeBig w"
  "lastFrameTime (updatePnLKey ct k w) = lastFrameTime w"
  by (auto simp: updatePnLKey_def Let_def split: option.splits)

lemma updatePnL_frame:
  "eng (updatePnL ct w) = eng w" "series (updatePnL ct w) = series w"
  "charts (updatePnL ct w) = charts w" "globalTimeBig (updatePnL ct w) = globalTimeBig w"
  "lastFrameTime (updatePnL ct w) = lastFrameTime w"
  by (simp_all add: updatePnL_def updatePnLKey_frame)

lemma checkAndFetchMore_frame:
  "eng (checkAndFetchMore w) = eng w" "series (checkAndFetchMore w) = series w"
  "charts (checkAndFetchMore w) = charts w" "globalTimeBig (checkAndFetchMore w) = globalTimeBig w"
  "lastFrameTime (checkAndFetchMore w) = lastFrameTime w"
  by (simp_all add: checkAndFetchMore_def Let_def)

text \<open>What one frame does to the clock, the charts and each instrument.\<close>

lemma loop_frame:
  assumes "lastFrameTime w \<noteq> 0"
  shows "globalTimeBig (loop True sp ct (lastFrameTime w + d) w) = globalTimeBig w + advanceNs sp d"
    and "lastFrameTime (loop True sp ct (lastFrameTime w + d) w) = lastFrameTime w + d"
    and "charts (loop True sp ct (lastFrameTime w + d) w) = charts w"
    and "(eng (loop True sp ct (lastFrameTime w + d) w) k, series (loop True sp ct (lastFrameTime w + d) w) k)
          = stepInst (charts w k) (globalTimeBig w + advanceNs sp d) (eng w k, series w k)"
  using assms
  by (cases k; simp add: loop_def Let_def advanceNs_def checkAndFetchMore_frame updatePnL_frame
      processInstrumentTick_stepInst)+


lemma advanceNs_nonneg: "0 \<le> sp \<Longrightarrow> 0 \<le> d \<Longrightarrow> 0 \<le> advanceNs sp d"
  by (simp add: advanceNs_def)

lemma totalNs_nonneg: "0 \<le> sp \<Longrightarrow> \<forall>d \<in> set ds. 0 \<le> d \<Longrightarrow> 0 \<le> totalNs sp ds"
  by (induction ds) (auto simp: totalNs_def advanceNs_nonneg)

lemma frames_view:
  assumes "ds \<noteq> []" and "\<forall>d \<in> set ds. 0 \<le> d" and "0 \<le> sp"
    and "0 < lastFrameTime w" and "\<forall>k. - 1 \<le> lastLoadedIndex (eng w k)"
  shows "globalTimeBig (frames sp ct ds w) = globalTimeBig w + totalNs sp ds
       \<and> charts (frames sp ct ds w) = charts w
       \<and> (\<forall>k. (eng (frames sp ct ds w) k, series (frames sp ct ds w) k)
               = stepInst (charts w k) (globalTimeBig w + totalNs sp ds) (eng w k, series w k))"
  using assms
proof (induction ds arbitrary: w)
  case Nil
  then show ?case by simp
next
  case (Cons d ds)
  let ?w = "loop True sp ct (lastFrameTime w + d) w"
  from Cons.prems have d0: "0 \<le> d" and lf: "lastFrameTime w \<noteq> 0"
    by auto
  note fr = loop_frame [OF lf, of sp ct d]
  show ?case
  proof (cases "ds = []")
    case True
    then show ?thesis
      using fr by (simp add: totalNs_def)
  next
    case False
    have p1: "\<forall>d \<in> set ds. 0 \<le> d"
      using Cons.prems(2) by simp
    have p2: "0 < lastFrameTime ?w"
      using Cons.prems(4) d0 by (simp add: fr)
    have p3: "\<forall>k. - 1 \<le> lastLoadedIndex (eng ?w k)"
    proof
      fix k
      have "eng ?w k = fst (stepInst (charts w k) (globalTimeBig w + advanceNs sp d)
                              (eng w k, series w k))"
        using fr(4) [of k] by (metis fst_conv)
      then show "- 1 \<le> lastLoadedIndex (eng ?w k)"
        using Cons.prems(5) by (simp add: stepInst_index)
    qed
    from Cons.IH [OF False p1 Cons.prems(3) p2 p3]
    have ih: "globalTimeBig (frames sp ct ds ?w) = globalTimeBig ?w + totalNs sp ds"
      "charts (frames sp ct ds ?w) = charts ?w"
      "\<And>k. (eng (frames sp ct ds ?w) k, series (frames sp ct ds ?w) k)
               = stepInst (charts ?w k) (globalTimeBig ?w + totalNs sp ds)
                   (eng ?w k, series ?w k)"
      by simp_all
    have le: "globalTimeBig w + advanceNs sp d \<le> globalTimeBig w + advanceNs sp d + totalNs sp ds"
      using totalNs_nonneg [OF Cons.prems(3) p1] by simp
    have tot: "totalNs sp (d # ds) = advanceNs sp d + totalNs sp ds"
      by (simp add: totalNs_def)
    have "(eng (frames sp ct ds ?w) k, series (frames sp ct ds ?w) k)
            = stepInst (charts w k) (globalTimeBig w + totalNs sp (d # ds))
                (eng w k, series w k)" for k
    proof -
      have "(eng (frames sp ct ds ?w) k, series (frames sp ct ds ?w) k)
              = stepInst (charts w k) (globalTimeBig w + advanceNs sp d + totalNs sp ds)
                  (stepInst (charts w k) (globalTimeBig w + advanceNs sp d)
                     (eng w k, series w k))"
        by (simp only: ih(3) fr)
      also have "\<dots> = stepInst (charts w k) (globalTimeBig w + advanceNs sp d + totalNs sp ds)
                         (eng w k, series w k)"
        using le Cons.prems(5) by (intro stepInst_twice) simp_all
      finally show ?thesis by (simp add: tot add.assoc)
    qed
    then show ?thesis
      by (simp add: ih(1,2) fr tot)
  qed
qed

lemma floor_sum_int:
  "\<forall>d \<in> set ds. d * c \<in> \<int> \<Longrightarrow> sum_list (map (\<lambda>d. \<lfloor>d * c\<rfloor>) ds) = \<lfloor>sum_list ds * (c::real)\<rfloor>"
proof (induction ds)
  case Nil
  then show ?case by simp
next
  case (Cons d ds)
  then obtain z :: int where z: "d * c = of_int z"
    by (auto elim: Ints_cases)
  have "\<lfloor>(d + sum_list ds) * c\<rfloor> = \<lfloor>of_int z + sum_list ds * c\<rfloor>"
    by (simp add: distrib_right z)
  also have "\<dots> = z + \<lfloor>sum_list ds * c\<rfloor>"
    by simp
  finally show ?case
    using Cons by (simp add: z)
qed

lemma totalNs_whole:
  assumes "\<forall>d \<in> set ds. d * 1000000 * sp \<in> \<int>"
  shows "totalNs sp ds = totalNs sp [sum_list ds]"
proof -
  have "\<forall>d \<in> set ds. d * (1000000 * sp) \<in> \<int>"
    using assms by (simp add: mult.assoc)
  moreover have "advanceNs sp = (\<lambda>d. \<lfloor>d * (1000000 * sp)\<rfloor>)"
    by (simp add: fun_eq_iff advanceNs_def mult.assoc)
  ultimately show ?thesis
    using floor_sum_int [of ds "1000000 * sp"] by (simp add: totalNs_def mult.assoc)
qed

text \<open>
  C3, as stated, fails: with speed 1, one frame of 33.3333334 ms advances the clock by
  \<open>\<lfloor>33333333.4\<rfloor> = 33333333\<close> ns and folds the tick stamped 33333333 ns, while two
  frames of 16.6666667 ms each advance it by \<open>2 * \<lfloor>16666666.7\<rfloor> = 33333332\<close> ns and fold
  nothing.
\<close>

theorem frames_split_counterexample:
  "sum_list [166666667/10000000, 166666667/10000000] = (333333334/10000000 :: real)
   \<and> globalTimeBig (frames 1 MINI [333333334/10000000] worldRun) = 33333333
   \<and> globalTimeBig (frames 1 MINI [166666667/10000000, 166666667/10000000] worldRun)
       = 33333332
   \<and> candle (eng (frames 1 MINI [333333334/10000000] worldRun) ES) = Some (newCandle 0 5)
   \<and> candle (eng (frames 1 MINI [166666667/10000000, 166666667/10000000] worldRun) ES)
       = None"
  by code_simp

text \<open>
  C3, amended. Each frame advances the clock by
  \<open>\<lfloor>wallDeltaMs * 1000000 * speedMultiplier\<rfloor>\<close> nanoseconds. In a running session (a frame
  has already run, so \<open>lastFrameTime\<close> is set) with unchanged tick buffers, advancing by
  non-negative deltas each of which is a whole number of nanoseconds after scaling, in
  one frame or in several frames with the same sum, yields the same final clock value
  and the same final per-instrument state (candle, current price, consumed index) and
  the same candles given to the chart, for every speed multiplier in [1,500].
\<close>

theorem frames_split_whole_ns:
  assumes "ds \<noteq> []"
    and "\<forall>d \<in> set ds. 0 \<le> d \<and> d * 1000000 * sp \<in> \<int>"
    and "1 \<le> sp" and "sp \<le> 500"
    and "0 < lastFrameTime w"
    and "\<forall>k. - 1 \<le> lastLoadedIndex (eng w k)"
  shows "globalTimeBig (frames sp ct ds w) = globalTimeBig (frames sp ct [sum_list ds] w)
       \<and> globalTimeBig (frames sp ct ds w) = globalTimeBig w + \<lfloor>sum_list ds * 1000000 * sp\<rfloor>
       \<and> eng (frames sp ct ds w) = eng (frames sp ct [sum_list ds] w)
       \<and> series (frames sp ct ds w) = series (frames sp ct [sum_list ds] w)"
proof -
  have sp0: "0 \<le> sp" using assms(3) by simp
  have nn: "\<forall>d \<in> set ds. 0 \<le> d" using assms(2) by simp
  have wh: "\<forall>d \<in> set ds. d * 1000000 * sp \<in> \<int>" using assms(2) by simp
  have s0: "\<forall>d \<in> set [sum_list ds]. 0 \<le> d"
    using nn by (simp add: sum_list_nonneg)
  note a = frames_view [OF assms(1) nn sp0 assms(5,6), of ct]
  have ne: "[sum_list ds] \<noteq> []" by simp
  note b = frames_view [OF ne s0 sp0 assms(5,6), of ct]
  have t: "totalNs sp ds = totalNs sp [sum_list ds]"
    using wh by (rule totalNs_whole)
  have e: "eng (frames sp ct ds w) k = eng (frames sp ct [sum_list ds] w) k
         \<and> series (frames sp ct ds w) k = series (frames sp ct [sum_list ds] w) k" for k
  proof -
    have "(eng (frames sp ct ds w) k, series (frames sp ct ds w) k)
        = (eng (frames sp ct [sum_list ds] w) k, series (frames sp ct [sum_list ds] w) k)"
      using a b by (simp only: t)
    then show ?thesis by simp
  qed
  have g: "globalTimeBig (frames sp ct ds w) = globalTimeBig (frames sp ct [sum_list ds] w)"
    using a b by (simp only: t)
  have v: "globalTimeBig (frames sp ct [sum_list ds] w)
             = globalTimeBig w + \<lfloor>sum_list ds * 1000000 * sp\<rfloor>"
    using b by (simp add: totalNs_def advanceNs_def)
  show ?thesis
    using e g v by (auto simp: fun_eq_iff)
qed

text \<open>
  Frames of 2 ms and 6 ms at speed 5, against one frame of 8 ms: both end with the
  clock at 40000000 ns and the pending tick folded.
\<close>

theorem frames_split_whole_ns_witness:
  "globalTimeBig (frames 5 MINI [2, 6] worldRun) = globalTimeBig (frames 5 MINI [8] worldRun)
   \<and> globalTimeBig (frames 5 MINI [2, 6] worldRun) = 40000000
   \<and> eng (frames 5 MINI [2, 6] worldRun) = eng (frames 5 MINI [8] worldRun)
   \<and> series (frames 5 MINI [2, 6] worldRun) = series (frames 5 MINI [8] worldRun)"
proof -
  have a: "[2, 6 :: real] \<noteq> []"
    by simp
  have b: "\<forall>d \<in> set [2, 6 :: real]. 0 \<le> d \<and> d * 1000000 * 5 \<in> \<int>"
    by simp
  have c: "(1::real) \<le> 5" "(5::real) \<le> 500"
    by simp_all
  have d: "0 < lastFrameTime worldRun"
    by (simp add: worldRun_def)
  have e: "\<forall>k. - 1 \<le> lastLoadedIndex (eng worldRun k)"
    by (simp add: worldRun_def inst0_def)
  from frames_split_whole_ns [OF a b c d e, of MINI] show ?thesis
    by (simp add: worldRun_def world0_def)
qed

lemma frames_split_example_folds:
  "candle (eng (frames 5 MINI [2, 6] worldRun) ES) = Some (newCandle 0 5)
   \<and> candle (eng (frames 5 MINI [2] worldRun) ES) = None"
  by code_simp

section \<open>Theorems about loading and seeking\<close>









text \<open>When both first pages are empty the load ends with the alert and does not start.\<close>

lemma loadData_no_data:
  "dayToLoad \<noteq> [] \<Longrightarrow> pg_ticks esData = [] \<Longrightarrow> pg_ticks nqData = [] \<Longrightarrow>
   fst (loadData dayToLoad targetMin (Some esData) (Some nqData) w) = NoTradingData"
  by (simp add: loadData_def Let_def startNsOf_def firstTs_def truthyBig_def)

end
